theory Spec2Isabelle
  imports Main "HOL-Library.Sublist"
begin

section \<open>Python values and string primitives used by gitflow.py\<close>

text \<open>
  The module handles only two kinds of Python values in its parameters: a \<open>str\<close> and
  \<open>None\<close> (an optional parameter that the task did not give). A value is therefore a
  \<open>string option\<close>, with \<open>None\<close> for Python's \<open>None\<close>. Strings are the byte strings of
  the interpreter the module was written for (\<open>#!/usr/bin/python\<close>, Ansible 1.9).
\<close>

type_synonym pyval = "string option"

datatype pyerror = ValueError | IndexError | Unsupported

text \<open>\<open>str(v)\<close>, as \<open>str.format\<close> applies it to a positional argument.\<close>

fun py_str :: "pyval \<Rightarrow> string" where
  "py_str None = ''None''"
| "py_str (Some s) = s"

text \<open>\<open>x in xs\<close> for a list of strings: \<open>None\<close> is equal to no string.\<close>

fun py_in :: "pyval \<Rightarrow> string list \<Rightarrow> bool" where
  "py_in None xs = False"
| "py_in (Some s) xs = (s \<in> set xs)"

subsection \<open>\<open>str.format\<close> with explicit positional fields\<close>

text \<open>
  The templates of the module use literal text and fields \<open>{n}\<close> with a decimal index.
  The scanner below reads a template left to right. \<open>{{\<close> and \<open>}}\<close> are the escapes of
  a brace, a lone brace is Python's \<open>ValueError\<close>, an index beyond the arguments is its
  \<open>IndexError\<close>. Automatic numbering, names, conversions and format specifications do
  not occur in the module and are reported as \<open>Unsupported\<close>.
\<close>

datatype fstate = Lit | Opened | Idx nat | Closing

definition is_digit :: "char \<Rightarrow> bool" where
  "is_digit c = (c \<in> set ''0123456789'')"

definition digit_val :: "char \<Rightarrow> nat" where
  "digit_val c = of_char c - 48"

fun emit :: "string \<Rightarrow> pyerror + string \<Rightarrow> pyerror + string" where
  "emit s (Inl e) = Inl e"
| "emit s (Inr t) = Inr (s @ t)"

fun format_go :: "fstate \<Rightarrow> string \<Rightarrow> pyval list \<Rightarrow> pyerror + string" where
  "format_go Lit [] args = Inr []"
| "format_go Lit (c # cs) args =
     (if c = CHR ''{'' then format_go Opened cs args
      else if c = CHR ''}'' then format_go Closing cs args
      else emit [c] (format_go Lit cs args))"
| "format_go Opened [] args = Inl ValueError"
| "format_go Opened (c # cs) args =
     (if c = CHR ''{'' then emit [c] (format_go Lit cs args)
      else if is_digit c then format_go (Idx (digit_val c)) cs args
      else Inl Unsupported)"
| "format_go (Idx n) [] args = Inl ValueError"
| "format_go (Idx n) (c # cs) args =
     (if c = CHR ''}'' then
        (if n < length args then emit (py_str (args ! n)) (format_go Lit cs args)
         else Inl IndexError)
      else if is_digit c then format_go (Idx (10 * n + digit_val c)) cs args
      else Inl Unsupported)"
| "format_go Closing [] args = Inl ValueError"
| "format_go Closing (c # cs) args =
     (if c = CHR ''}'' then emit [c] (format_go Lit cs args) else Inl ValueError)"

definition py_format :: "string \<Rightarrow> pyval list \<Rightarrow> pyerror + string" where
  "py_format template args = format_go Lit template args"

subsection \<open>\<open>startswith\<close>, \<open>in\<close>, \<open>replace\<close>, \<open>strip\<close>, \<open>splitlines\<close>\<close>

definition startswith :: "string \<Rightarrow> string \<Rightarrow> bool" where
  "startswith s p = (take (length p) s = p)"

text \<open>\<open>sub in s\<close> for two strings: \<open>sub\<close> occurs in \<open>s\<close> as a contiguous block.\<close>

fun py_contains :: "string \<Rightarrow> string \<Rightarrow> bool" where
  "py_contains sub [] = (sub = [])"
| "py_contains sub (c # cs) = (startswith (c # cs) sub \<or> py_contains sub cs)"

text \<open>
  \<open>s.replace(old, new)\<close>: every occurrence of \<open>old\<close>, found left to right without
  overlap, becomes \<open>new\<close>. For an empty \<open>old\<close> Python puts \<open>new\<close> before every character
  and at the end.
\<close>

function replace :: "string \<Rightarrow> string \<Rightarrow> string \<Rightarrow> string" where
  "replace old new [] = (if old = [] then new else [])"
| "replace old new (c # cs) =
     (if old = [] then new @ c # replace old new cs
      else if startswith (c # cs) old then new @ replace old new (drop (length old) (c # cs))
      else c # replace old new cs)"
  by pat_completeness auto
termination
  by (relation "measure (\<lambda>(old, new, s). length s)") auto

text \<open>The whitespace of a byte string: space, tab, line feed, carriage return, VT, FF.\<close>

definition is_space :: "char \<Rightarrow> bool" where
  "is_space c = (c \<in> set [CHR '' '', CHR 0x09, CHR 0x0A, CHR 0x0D, CHR 0x0B, CHR 0x0C])"

definition strip :: "string \<Rightarrow> string" where
  "strip s = rev (dropWhile is_space (rev (dropWhile is_space s)))"

text \<open>
  \<open>s.splitlines()\<close> on a byte string: lines end at \<open>\n\<close>, \<open>\r\<close> or \<open>\r\n\<close>, the line
  ends are dropped, and a text that ends with a line end has no empty last line.
  The first argument is the line read so far.
\<close>

fun splitlines_go :: "string \<Rightarrow> string \<Rightarrow> string list" where
  "splitlines_go acc [] = (if acc = [] then [] else [acc])"
| "splitlines_go acc (c # cs) =
     (if c = CHR 0x0A then acc # splitlines_go [] cs
      else if c = CHR 0x0D then
        (case cs of
           [] \<Rightarrow> [acc]
         | d # ds \<Rightarrow> if d = CHR 0x0A then acc # splitlines_go [] ds
                     else acc # splitlines_go [] cs)
      else splitlines_go (acc @ [c]) cs)"

definition splitlines :: "string \<Rightarrow> string list" where
  "splitlines s = splitlines_go [] s"

section \<open>The Command Builder: \<open>_get_cmd\<close>\<close>

text \<open>
  \<open>cmd\<close> is the template string, as in the source, and the first guard compares the
  pair of the template and the action with the pair \<open>('hotfix', 'start')\<close>.
\<close>

definition get_cmd :: "pyval \<Rightarrow> pyval \<Rightarrow> pyval \<Rightarrow> pyval \<Rightarrow> pyval \<Rightarrow> pyval \<Rightarrow> pyerror + string" where
  "get_cmd git command action name base remote =
     (let cmd = ''{0} flow {1} {2} {3}'';
          cmd = (if (cmd, action) = (''hotfix'', Some ''start'')
                 then ''{0} flow {1} {2} {3}''
                 else if action = Some ''pull''
                 then ''{0} flow {1} {4} {2}''
                 else cmd)
      in py_format cmd [git, command, action, name, base, remote])"

section \<open>Processes, results and the host framework\<close>

text \<open>
  \<open>module.run_command(cmd, cwd=path)\<close> spawns a process and returns its exit code, its
  standard output and its standard error. The processes are outside the module, so the
  model takes them as a parameter: \<open>run i cmd cwd\<close> is what the \<open>i\<close>-th spawned process
  of the request returns (two runs of one command text need not agree). The trace lists
  the processes spawned so far, each with its command text and working directory.
\<close>

type_synonym runner = "nat \<Rightarrow> string \<Rightarrow> pyval \<Rightarrow> int \<times> string \<times> string"

type_synonym trace = "(string \<times> pyval) list"

definition run_command :: "runner \<Rightarrow> trace \<Rightarrow> string \<Rightarrow> pyval \<Rightarrow> trace \<times> int \<times> string \<times> string" where
  "run_command run tr cmd cwd = (tr @ [(cmd, cwd)], run (length tr) cmd cwd)"

text \<open>
  The dictionary \<open>dict(list=lst, current=current)\<close> that \<open>_list\<close> returns. The fields
  are named \<open>blist\<close> and \<open>bcurrent\<close>, since \<open>list\<close> names a type of HOL.
\<close>

record branches =
  blist :: "string list"
  bcurrent :: "string list"

text \<open>
  \<open>module.exit_json(**kwargs)\<close> and \<open>module.fail_json(**kwargs)\<close> report the keyword
  arguments to the task runner and end the process, so each is an outcome of the whole
  request. \<open>Raised\<close> is an uncaught Python exception, \<open>Returned\<close> a \<open>main\<close> that came to
  its end without reporting.
\<close>

datatype jval = JBool bool | JStr string | JBranches branches

type_synonym kwargs = "(string \<times> jval) list"

datatype outcome = Exit_json kwargs | Fail_json kwargs | Raised pyerror | Returned

text \<open>
  Modelled from the spec: \<open>AnsibleModule\<close>, the class of the host framework that checks
  the task's arguments against \<open>argument_spec\<close> before \<open>main\<close> reads \<open>module.params\<close>
  (section 6, parameters "already type/choice-validated"; section 7, a validation
  failure is fatal and comes before any process). It is imported by the module and is
  not part of the repository. The model covers the three keys that the module's
  \<open>argument_spec\<close> uses: an argument that the specification does not name is refused,
  a default that is not \<open>None\<close> is filled in, a required argument must be present, and
  an argument that is present and has declared choices must be one of them. A failed
  check ends the request with \<open>fail_json\<close> and the framework's message.
\<close>

datatype spec = Spec (spec_required: bool) (spec_choices: "string list option") (spec_default: pyval)

definition lookup_param :: "(string \<times> spec) list \<Rightarrow> (string \<times> string) list \<Rightarrow> string \<Rightarrow> pyval" where
  "lookup_param specs args k =
     (case map_of args k of
        Some v \<Rightarrow> Some v
      | None \<Rightarrow> (case map_of specs k of None \<Rightarrow> None | Some sp \<Rightarrow> spec_default sp))"

definition bad_choice :: "(string \<times> string) list \<Rightarrow> string \<times> spec \<Rightarrow> bool" where
  "bad_choice args ksp =
     (case (spec_choices (snd ksp), map_of args (fst ksp)) of
        (Some cs, Some v) \<Rightarrow> v \<notin> set cs
      | _ \<Rightarrow> False)"

fun join :: "string \<Rightarrow> string list \<Rightarrow> string" where
  "join sep [] = []"
| "join sep [x] = x"
| "join sep (x # y # ys) = x @ sep @ join sep (y # ys)"

definition AnsibleModule :: "(string \<times> spec) list \<Rightarrow> (string \<times> string) list \<Rightarrow> outcome + (string \<Rightarrow> pyval)" where
  "AnsibleModule specs args =
     (let params = lookup_param specs args in
      case filter (\<lambda>k. k \<notin> set (map fst specs)) (map fst args) of
        k # _ \<Rightarrow> Inl (Fail_json [(''msg'', JStr (''unsupported parameter for module: '' @ k))])
      | [] \<Rightarrow>
      (case map fst (filter (\<lambda>ksp. spec_required (snd ksp) \<and> params (fst ksp) = None) specs) of
        k # ks \<Rightarrow> Inl (Fail_json [(''msg'', JStr (''missing required arguments: '' @ join '','' (k # ks)))])
      | [] \<Rightarrow>
      (case filter (bad_choice args) specs of
        ksp # _ \<Rightarrow>
          Inl (Fail_json [(''msg'', JStr (''value of '' @ fst ksp @ '' must be one of: '' @
                                          join '','' (case spec_choices (snd ksp) of None \<Rightarrow> [] | Some cs \<Rightarrow> cs) @
                                          '', got: '' @ py_str (params (fst ksp))))])
      | [] \<Rightarrow> Inr params)))"

section \<open>The module\<close>

definition GIT_EXECUTABLE :: string where
  "GIT_EXECUTABLE = ''git''"

subsection \<open>\<open>_gitflow_version\<close> and \<open>_gitflow_init\<close>\<close>

definition gitflow_version :: "runner \<Rightarrow> trace \<Rightarrow> pyval \<Rightarrow> trace \<times> outcome" where
  "gitflow_version run tr git =
     (case py_format ''{0} flow version'' [git] of
        Inl e \<Rightarrow> (tr, Raised e)
      | Inr cmd \<Rightarrow>
          (case run_command run tr cmd None of
             (tr', rc, out, err) \<Rightarrow>
               if rc \<noteq> 0 then (tr', Fail_json [(''msg'', JStr err), (''command'', JStr cmd)])
               else (tr', Exit_json [(''changed'', JBool False), (''command'', JStr cmd),
                                     (''version'', JStr (strip out))])))"

definition gitflow_init :: "runner \<Rightarrow> trace \<Rightarrow> pyval \<Rightarrow> pyval \<Rightarrow> trace \<times> outcome" where
  "gitflow_init run tr git path =
     (case py_format ''{0} flow init -d'' [git] of
        Inl e \<Rightarrow> (tr, Raised e)
      | Inr cmd \<Rightarrow>
          (case run_command run tr cmd path of
             (tr', rc, out, err) \<Rightarrow>
               if rc \<noteq> 0 then (tr', Fail_json [(''msg'', JStr err), (''command'', JStr cmd)])
               else if py_contains ''Already initialized'' err
               then (tr', Exit_json [(''changed'', JBool False), (''msg'', JStr err), (''command'', JStr cmd)])
               else (tr', Exit_json [(''changed'', JBool True), (''msg'', JStr err), (''command'', JStr cmd)])))"

subsection \<open>The Branch Inventory Reader: \<open>_list\<close>\<close>

text \<open>
  \<open>parse_lines\<close> is the second half of \<open>_list\<close>, from \<open>out.splitlines()\<close> to the
  dictionary it returns; \<open>list_branches\<close> is \<open>_list\<close> itself and ends the request when
  the process fails.
\<close>

definition parse_lines :: "string \<Rightarrow> branches" where
  "parse_lines out =
     (let lst = splitlines out;
          current = filter (\<lambda>x. startswith x ''* '') lst;
          lst = map (\<lambda>x. strip (replace ''* '' '''' x)) lst;
          current = map (\<lambda>x. strip (replace ''* '' '''' x)) current
      in \<lparr>blist = lst, bcurrent = current\<rparr>)"

definition list_branches :: "runner \<Rightarrow> trace \<Rightarrow> pyval \<Rightarrow> pyval \<Rightarrow> pyval \<Rightarrow> trace \<times> (outcome + branches)" where
  "list_branches run tr git command path =
     (case py_format ''{0} flow {1} list'' [git, command] of
        Inl e \<Rightarrow> (tr, Inl (Raised e))
      | Inr cmd \<Rightarrow>
          (case run_command run tr cmd path of
             (tr', rc, out, err) \<Rightarrow>
               if rc \<noteq> 0 then (tr', Inl (Fail_json [(''msg'', JStr err), (''command'', JStr cmd)]))
               else (tr', Inr (parse_lines out))))"

subsection \<open>The Idempotency Gate: \<open>_exit_if_unchanged\<close>\<close>

text \<open>\<open>Some\<close> outcome when the function ends the request, \<open>None\<close> when it returns.\<close>

definition exit_if_unchanged :: "string \<Rightarrow> branches \<Rightarrow> pyval \<Rightarrow> pyval \<Rightarrow> outcome option" where
  "exit_if_unchanged cmd brs action name =
     (if (action = Some ''start'' \<and> py_in name (blist brs)) \<or>
         (action = Some ''finish'' \<and> \<not> py_in name (blist brs)) \<or>
         (action = Some ''checkout'' \<and> py_in name (bcurrent brs))
      then Some (Exit_json [(''changed'', JBool False), (''command'', JStr cmd)])
      else None)"

subsection \<open>\<open>_gitflow_branch\<close> and \<open>main\<close>\<close>

definition gitflow_branch ::
  "runner \<Rightarrow> trace \<Rightarrow> pyval \<Rightarrow> pyval \<Rightarrow> pyval \<Rightarrow> pyval \<Rightarrow> pyval \<Rightarrow> pyval \<Rightarrow> pyval \<Rightarrow> trace \<times> outcome" where
  "gitflow_branch run tr git command path action name base remote =
     (case get_cmd git command action name base remote of
        Inl e \<Rightarrow> (tr, Raised e)
      | Inr cmd \<Rightarrow>
          (case list_branches run tr git command path of
             (tr1, Inl ended) \<Rightarrow> (tr1, ended)
           | (tr1, Inr brs) \<Rightarrow>
               (case exit_if_unchanged cmd brs action name of
                  Some ended \<Rightarrow> (tr1, ended)
                | None \<Rightarrow>
                    if action = Some ''list''
                    then (tr1, Exit_json [(''changed'', JBool False), (''branches'', JBranches brs)])
                    else
                      (case run_command run tr1 cmd path of
                         (tr2, rc, out, err) \<Rightarrow>
                           if rc \<noteq> 0
                           then (tr2, Fail_json [(''msg'', JStr err), (''command'', JStr cmd)])
                           else (tr2, Exit_json [(''changed'', JBool True), (''msg'', JStr err),
                                                 (''command'', JStr cmd)])))))"

definition argument_spec :: "(string \<times> spec) list" where
  "argument_spec =
     [(''path'', Spec False None None),
      (''command'', Spec True (Some [''init'', ''feature'', ''release'', ''hotfix'', ''version'']) None),
      (''action'', Spec False (Some [''start'', ''finish'', ''publish'', ''list'',
                                     ''rebase'', ''checkout'', ''pull'']) None),
      (''name'', Spec False None None),
      (''executable'', Spec False None (Some GIT_EXECUTABLE)),
      (''remote'', Spec False None (Some '''')),
      (''base'', Spec False None (Some ''''))]"

definition main :: "runner \<Rightarrow> (string \<times> string) list \<Rightarrow> trace \<times> outcome" where
  "main run args =
     (case AnsibleModule argument_spec args of
        Inl ended \<Rightarrow> ([], ended)
      | Inr params \<Rightarrow>
          (let path = params ''path'';
               git = params ''executable'';
               command = params ''command'';
               action = params ''action'';
               name = params ''name'';
               remote = params ''remote'';
               base = params ''base''
           in if command = Some ''version'' then gitflow_version run [] git
              else if command = Some ''init'' then gitflow_init run [] git path
              else if py_in command [''feature'', ''release'', ''hotfix'', ''support'']
              then gitflow_branch run [] git command path action name base remote
              else ([], Returned)))"

subsection \<open>The recorded branch name in the words of the specification\<close>

text \<open>
  The specification describes the name that the reader records for a line: the line
  with only a leading marker \<open>"* "\<close> removed, when it has one, and then trimmed of
  surrounding whitespace. \<open>spec_branch_name\<close> follows these words; \<open>parse_lines\<close>
  above follows the source, which removes the marker with \<open>replace\<close>.
\<close>

definition drop_marker :: "string \<Rightarrow> string" where
  "drop_marker x = (if startswith x ''* '' then drop 2 x else x)"


section \<open>What the templates format to\<close>

lemmas format_simps = py_format_def is_digit_def digit_val_def

text \<open>
  Every template of the module is well formed and names only indices below six, so
  \<open>_get_cmd\<close> never raises. The field \<open>{5}\<close>, the remote, is in no template, and the
  template for \<open>pull\<close> reads the fields 4 and 2: the base and the action.
\<close>

lemma get_cmd_eq:
  "get_cmd git command action name base remote =
     Inr (if action = Some ''pull''
          then py_str git @ '' flow '' @ py_str command @ '' '' @ py_str base @ '' '' @ py_str action
          else py_str git @ '' flow '' @ py_str command @ '' '' @ py_str action @ '' '' @ py_str name)"
  by (simp add: get_cmd_def format_simps)

lemma version_cmd_eq: "py_format ''{0} flow version'' [git] = Inr (py_str git @ '' flow version'')"
  by (simp add: format_simps)

lemma init_cmd_eq: "py_format ''{0} flow init -d'' [git] = Inr (py_str git @ '' flow init -d'')"
  by (simp add: format_simps)

lemma list_cmd_eq:
  "py_format ''{0} flow {1} list'' [git, command]
     = Inr (py_str git @ '' flow '' @ py_str command @ '' list'')"
  by (simp add: format_simps)

lemma list_branches_eq:
  "list_branches run tr git command path =
     (let cmd = py_str git @ '' flow '' @ py_str command @ '' list'' in
      case run (length tr) cmd path of
        (rc, out, err) \<Rightarrow>
          (tr @ [(cmd, path)],
           if rc \<noteq> 0 then Inl (Fail_json [(''msg'', JStr err), (''command'', JStr cmd)])
           else Inr (parse_lines out)))"
  by (simp add: list_branches_def list_cmd_eq run_command_def Let_def split: prod.splits)

lemmas main_simps = main_def AnsibleModule_def argument_spec_def lookup_param_def bad_choice_def
  GIT_EXECUTABLE_def

lemmas parse_simps = parse_lines_def splitlines_def startswith_def strip_def is_space_def

section \<open>The Command Builder\<close>

text \<open>
  C1. The claim: for the action \<open>pull\<close> the builder puts the remote before the branch
  name, and \<open>build("git", "feature", "pull", "foo", "", "origin")\<close> is
  \<open>"git flow feature pull origin foo"\<close>. The source's comment says the same, but its
  template is \<open>'{0} flow {1} {4} {2}'\<close>: at the claim's input the code returns the
  tool, the command, the empty base and the action, and neither the remote nor the name.
\<close>

theorem pull_command_text:
  "get_cmd (Some ''git'') (Some ''feature'') (Some ''pull'') (Some ''foo'') (Some '''') (Some ''origin'')
     = Inr ''git flow feature  pull''"
  by (simp add: get_cmd_eq)

text \<open>
  C2. For every tool, name, base and remote, the command built for \<open>hotfix\<close> and \<open>start\<close>
  is the default template's \<open><tool> flow hotfix start <name>\<close>: the guard of the special
  case compares the template with \<open>'hotfix'\<close> and never holds, so the base is not appended.
\<close>

theorem hotfix_start_uses_default_template:
  "get_cmd git (Some ''hotfix'') (Some ''start'') name base remote
     = Inr (py_str git @ '' flow hotfix start '' @ py_str name)"
  by (simp add: get_cmd_eq)

text \<open>
  C10. Two calls of the builder that differ only in the remote return the same string:
  the remote is in no built command, for \<open>pull\<close> as for every other action.
\<close>

theorem remote_never_in_command:
  "get_cmd git command action name base remote = get_cmd git command action name base remote'"
  by (simp add: get_cmd_eq)

section \<open>The Idempotency Gate\<close>

text \<open>
  C3. For every inventory and name, when the action is \<open>start\<close> and the name is in the
  inventory's list of all branches, or the action is \<open>finish\<close> and the name is not in it,
  the gate ends the request with \<open>changed=False\<close>; and in \<open>_gitflow_branch\<close>, once the
  list process has returned that inventory with exit code 0, the list process is the only
  one spawned: no mutating command runs.
\<close>

theorem gate_skips_start_and_finish:
  assumes "(action = Some ''start'' \<and> py_in name (blist brs)) \<or>
           (action = Some ''finish'' \<and> \<not> py_in name (blist brs))"
  shows "exit_if_unchanged cmd brs action name
           = Some (Exit_json [(''changed'', JBool False), (''command'', JStr cmd)]) \<and>
         (run (length tr) (py_str git @ '' flow '' @ py_str command @ '' list'') path = (0, out, err) \<and>
          parse_lines out = brs \<longrightarrow>
          gitflow_branch run tr git command path action name base remote
            = (tr @ [(py_str git @ '' flow '' @ py_str command @ '' list'', path)],
               Exit_json [(''changed'', JBool False),
                          (''command'', JStr (py_str git @ '' flow '' @ py_str command @ '' '' @
                                              py_str action @ '' '' @ py_str name))]))"
proof -
  have gate: "\<And>c. exit_if_unchanged c brs action name
                = Some (Exit_json [(''changed'', JBool False), (''command'', JStr c)])"
    using assms by (auto simp: exit_if_unchanged_def)
  have cmd: "get_cmd git command action name base remote
               = Inr (py_str git @ '' flow '' @ py_str command @ '' '' @ py_str action @ '' '' @ py_str name)"
    using assms by (auto simp: get_cmd_eq)
  show ?thesis
    by (simp add: gate gitflow_branch_def cmd list_branches_eq)
qed

theorem gate_skips_start_and_finish_witness:
  "gitflow_branch (\<lambda>i c d. (0, ''  foo\<newline>* bar'', '''')) [] (Some ''git'') (Some ''feature'')
       (Some ''/repo'') (Some ''start'') (Some ''foo'') (Some '''') (Some '''')
     = ([(''git flow feature list'', Some ''/repo'')],
        Exit_json [(''changed'', JBool False), (''command'', JStr ''git flow feature start foo'')]) \<and>
   exit_if_unchanged ''git flow feature finish baz'' \<lparr>blist = [''foo'', ''bar''], bcurrent = [''bar'']\<rparr>
       (Some ''finish'') (Some ''baz'')
     = Some (Exit_json [(''changed'', JBool False), (''command'', JStr ''git flow feature finish baz'')])"
proof -
  have p: "parse_lines ''  foo\<newline>* bar'' = \<lparr>blist = [''foo'', ''bar''], bcurrent = [''bar'']\<rparr>"
    by (simp add: parse_simps)
  show ?thesis
    using gate_skips_start_and_finish
            [of "Some ''start''" "Some ''foo''" "\<lparr>blist = [''foo'', ''bar''], bcurrent = [''bar'']\<rparr>"
                "''git flow feature start foo''" "\<lambda>i c d. (0, ''  foo\<newline>* bar'', '''')" "[]"
                "Some ''git''" "Some ''feature''" "Some ''/repo''" "''  foo\<newline>* bar''" "''''"
                "Some ''''" "Some ''''"]
          gate_skips_start_and_finish
            [of "Some ''finish''" "Some ''baz''" "\<lparr>blist = [''foo'', ''bar''], bcurrent = [''bar'']\<rparr>"
                "''git flow feature finish baz''"]
    by (simp add: p)
qed

text \<open>
  C4. For every inventory and name, the gate ends the request with \<open>changed=False\<close> when
  the action is \<open>checkout\<close> and the name is in the inventory's current branches; and for
  the actions \<open>list\<close>, \<open>publish\<close>, \<open>track\<close>, \<open>rebase\<close> and \<open>pull\<close> it returns without
  ending the request, whatever the inventory holds.
\<close>

theorem gate_checkout_and_other_actions:
  "(action = Some ''checkout'' \<and> py_in name (bcurrent brs) \<longrightarrow>
      exit_if_unchanged cmd brs action name
        = Some (Exit_json [(''changed'', JBool False), (''command'', JStr cmd)])) \<and>
   (action \<in> {Some ''list'', Some ''publish'', Some ''track'', Some ''rebase'', Some ''pull''} \<longrightarrow>
      exit_if_unchanged cmd brs action name = None)"
  by (auto simp: exit_if_unchanged_def)

theorem gate_checkout_and_other_actions_witness:
  "exit_if_unchanged ''git flow feature checkout bar'' \<lparr>blist = [''foo'', ''bar''], bcurrent = [''bar'']\<rparr>
       (Some ''checkout'') (Some ''bar'')
     = Some (Exit_json [(''changed'', JBool False), (''command'', JStr ''git flow feature checkout bar'')]) \<and>
   exit_if_unchanged ''git flow feature publish foo'' \<lparr>blist = [''foo'', ''bar''], bcurrent = [''bar'']\<rparr>
       (Some ''publish'') (Some ''foo'') = None"
  using gate_checkout_and_other_actions
          [of "Some ''checkout''" "Some ''bar''" "\<lparr>blist = [''foo'', ''bar''], bcurrent = [''bar'']\<rparr>"
              "''git flow feature checkout bar''"]
        gate_checkout_and_other_actions
          [of "Some ''publish''" "Some ''foo''" "\<lparr>blist = [''foo'', ''bar''], bcurrent = [''bar'']\<rparr>"
              "''git flow feature publish foo''"]
  by simp

section \<open>The Branch Inventory Reader\<close>

text \<open>
  C5. Parsing the three lines \<open>"  feature/a"\<close>, \<open>"* feature/b"\<close>, \<open>"  feature/c"\<close> gives
  the inventory with all branches \<open>feature/a\<close>, \<open>feature/b\<close>, \<open>feature/c\<close> and the current
  branch \<open>feature/b\<close>.
\<close>

theorem parse_three_features:
  "parse_lines ''  feature/a\<newline>* feature/b\<newline>  feature/c''
     = \<lparr>blist = [''feature/a'', ''feature/b'', ''feature/c''], bcurrent = [''feature/b'']\<rparr>"
  by (simp add: parse_simps)




lemma no_inner_asterisk:
  assumes "CHR ''*'' \<notin> set (tl x)"
  shows "\<not> py_contains ''* '' (drop_marker x)"
proof -
  have a: "\<And>s. CHR ''*'' \<notin> set s \<Longrightarrow> \<not> py_contains ''* '' s"
  proof -
    fix s :: string show "CHR ''*'' \<notin> set s \<Longrightarrow> \<not> py_contains ''* '' s"
      by (induction s) (auto simp: startswith_def)
  qed
  show ?thesis
  proof (cases "startswith x ''* ''")
    case True
    have "set (drop 2 x) \<subseteq> set (tl x)"
      by (cases x) (auto dest: in_set_dropD)
    with assms have "CHR ''*'' \<notin> set (drop 2 x)" by blast
    with True show ?thesis by (simp add: drop_marker_def a)
  next
    case False
    show ?thesis
    proof (cases x)
      case Nil
      then show ?thesis by (simp add: drop_marker_def startswith_def)
    next
      case (Cons c cs)
      with assms have "\<not> py_contains ''* '' cs" by (simp add: a)
      with False Cons show ?thesis by (simp add: drop_marker_def)
    qed
  qed
qed



text \<open>
  The hypothesis cannot be dropped: \<open>replace\<close> removes every \<open>"* "\<close> of a line, also one
  inside it.
\<close>

lemma inner_marker_is_removed_too:
  "parse_lines ''  one* two\<newline>* three* four''
     = \<lparr>blist = [''onetwo'', ''threefour''], bcurrent = [''threefour'']\<rparr>"
  by (simp add: parse_simps)

section \<open>Validation of the task's arguments\<close>

text \<open>
  C7. The claim: \<open>track\<close> is among the declared choices of \<open>action\<close> and passes the
  validation. The module's documentation lists it, but the \<open>argument_spec\<close> in \<open>main\<close>
  leaves it out, so a task with \<open>action=track\<close> is refused before any process is spawned.
\<close>

theorem track_is_rejected:
  "main run [(''path'', ''/repo''), (''command'', ''feature''), (''action'', ''track''), (''name'', ''foo'')]
     = ([], Fail_json [(''msg'', JStr (''value of action must be one of: '' @
                                       ''start,finish,publish,list,rebase,checkout,pull, got: track''))])"
  by (simp add: main_simps)

text \<open>
  C8. The claim: a branch command with an action other than \<open>list\<close> and no name fails
  the validation before any process is spawned. The code checks nothing beyond the
  \<open>argument_spec\<close>, where \<open>name\<close> is optional: for \<open>command=feature action=start\<close> without a
  name it spawns the list process and then the mutating command, with \<open>None\<close> formatted
  into the command text as the branch name.
\<close>

theorem missing_name_is_not_rejected:
  "main (\<lambda>i c d. (0, '''', '''')) [(''path'', ''/repo''), (''command'', ''feature''), (''action'', ''start'')]
     = ([(''git flow feature list'', Some ''/repo''), (''git flow feature start None'', Some ''/repo'')],
        Exit_json [(''changed'', JBool True), (''msg'', JStr ''''),
                   (''command'', JStr ''git flow feature start None'')])"
  by (simp add: main_simps gitflow_branch_def get_cmd_eq list_branches_eq exit_if_unchanged_def
        run_command_def parse_lines_def splitlines_def) (simp add: Let_def)

section \<open>Failing processes\<close>

text \<open>
  Each of the three paths of \<open>main\<close>, started with an empty trace: a process of the trace
  that exits with a code other than 0 is the last one spawned, and the outcome is
  \<open>fail_json\<close> with its standard error and its command text.
\<close>

lemma gitflow_version_fatal:
  assumes "gitflow_version run [] git = (tr, out)" and "i < length tr"
    and "run i (fst (tr ! i)) (snd (tr ! i)) = (rc, so, se)" and "rc \<noteq> 0"
  shows "Suc i = length tr \<and> out = Fail_json [(''msg'', JStr se), (''command'', JStr (fst (tr ! i)))]"
  using assms
  by (auto simp: gitflow_version_def version_cmd_eq run_command_def split: prod.splits if_splits)

lemma gitflow_init_fatal:
  assumes "gitflow_init run [] git path = (tr, out)" and "i < length tr"
    and "run i (fst (tr ! i)) (snd (tr ! i)) = (rc, so, se)" and "rc \<noteq> 0"
  shows "Suc i = length tr \<and> out = Fail_json [(''msg'', JStr se), (''command'', JStr (fst (tr ! i)))]"
  using assms
  by (auto simp: gitflow_init_def init_cmd_eq run_command_def split: prod.splits if_splits)

lemma gitflow_branch_fatal:
  assumes "gitflow_branch run [] git command path action name base remote = (tr, out)"
    and "i < length tr"
    and "run i (fst (tr ! i)) (snd (tr ! i)) = (rc, so, se)" and "rc \<noteq> 0"
  shows "Suc i = length tr \<and> out = Fail_json [(''msg'', JStr se), (''command'', JStr (fst (tr ! i)))]"
proof -
  obtain cmd where c: "get_cmd git command action name base remote = Inr cmd"
    by (simp add: get_cmd_eq)
  show ?thesis
    using assms
    by (auto simp: gitflow_branch_def c list_branches_eq run_command_def Let_def less_Suc_eq nth_Cons'
             split: prod.splits if_splits option.splits)
qed

text \<open>
  C9. Whenever a process spawned by the module (version, init, list or a mutating branch
  command) exits with a code other than 0, the module ends at once with \<open>fail_json\<close>:
  the message is the standard error of that process, the command is the text that was
  run, and that process is the last one spawned, so nothing is retried or run after it.
\<close>

theorem external_failure_is_fatal:
  assumes "main run args = (tr, out)" and "i < length tr"
    and "run i (fst (tr ! i)) (snd (tr ! i)) = (rc, so, se)" and "rc \<noteq> 0"
  shows "Suc i = length tr \<and> out = Fail_json [(''msg'', JStr se), (''command'', JStr (fst (tr ! i)))]"
proof (cases "AnsibleModule argument_spec args")
  case (Inl ended)
  with assms show ?thesis by (simp add: main_def)
next
  case (Inr params)
  let ?c = "params ''command''"
  consider (v) "?c = Some ''version''"
    | (i) "?c \<noteq> Some ''version''" "?c = Some ''init''"
    | (b) "?c \<noteq> Some ''version''" "?c \<noteq> Some ''init''" "py_in ?c [''feature'', ''release'', ''hotfix'', ''support'']"
    | (n) "?c \<noteq> Some ''version''" "?c \<noteq> Some ''init''" "\<not> py_in ?c [''feature'', ''release'', ''hotfix'', ''support'']"
    by blast
  then show ?thesis
  proof cases
    case v
    with Inr assms(1) have "gitflow_version run [] (params ''executable'') = (tr, out)"
      by (simp add: main_def)
    from gitflow_version_fatal[OF this assms(2-4)] show ?thesis .
  next
    case i
    with Inr assms(1) have "gitflow_init run [] (params ''executable'') (params ''path'') = (tr, out)"
      by (simp add: main_def)
    from gitflow_init_fatal[OF this assms(2-4)] show ?thesis .
  next
    case b
    with Inr assms(1) have "gitflow_branch run [] (params ''executable'') ?c (params ''path'')
         (params ''action'') (params ''name'') (params ''base'') (params ''remote'') = (tr, out)"
      by (simp add: main_def)
    from gitflow_branch_fatal[OF this assms(2-4)] show ?thesis .
  next
    case n
    with Inr assms(1) have "tr = []" by (simp add: main_def)
    with assms(2) show ?thesis by simp
  qed
qed

theorem external_failure_is_fatal_witness:
  "main (\<lambda>i c d. if i = 0 then (0, ''* foo'', '''') else (1, '''', ''fatal: no such branch''))
        [(''path'', ''/repo''), (''command'', ''feature''), (''action'', ''finish''), (''name'', ''foo'')]
     = ([(''git flow feature list'', Some ''/repo''), (''git flow feature finish foo'', Some ''/repo'')],
        Fail_json [(''msg'', JStr ''fatal: no such branch''),
                   (''command'', JStr ''git flow feature finish foo'')]) \<and>
   Suc 1 = length [(''git flow feature list'', Some ''/repo''), (''git flow feature finish foo'', Some ''/repo'')] \<and>
   Fail_json [(''msg'', JStr ''fatal: no such branch''), (''command'', JStr ''git flow feature finish foo'')]
     = Fail_json [(''msg'', JStr ''fatal: no such branch''),
                  (''command'', JStr (fst ([(''git flow feature list'', Some ''/repo''),
                                            (''git flow feature finish foo'', Some ''/repo'')] ! 1)))]"
proof -
  let ?run = "\<lambda>i c d. if i = (0::nat) then (0::int, ''* foo'', '''') else (1, '''', ''fatal: no such branch'')"
  let ?args = "[(''path'', ''/repo''), (''command'', ''feature''), (''action'', ''finish''), (''name'', ''foo'')]"
  let ?tr = "[(''git flow feature list'', Some ''/repo''), (''git flow feature finish foo'', Some ''/repo'')]"
  let ?out = "Fail_json [(''msg'', JStr ''fatal: no such branch''),
                         (''command'', JStr ''git flow feature finish foo'')]"
  have m: "main ?run ?args = (?tr, ?out)"
    apply (simp add: main_simps)
    apply (simp add: gitflow_branch_def get_cmd_eq list_branches_eq)
    apply (simp add: parse_simps exit_if_unchanged_def run_command_def)
    done
  have h2: "1 < length ?tr" by simp
  have h3: "?run 1 (fst (?tr ! 1)) (snd (?tr ! 1)) = (1, '''', ''fatal: no such branch'')" by simp
  have h4: "(1::int) \<noteq> 0" by simp
  show ?thesis
    by (rule conjI [OF m external_failure_is_fatal [OF m h2 h3 h4]])
qed

end
